theory Spec2Isabelle
  imports Complex_Main "HOL-Library.Sublist"
begin

text \<open>
  Station TV: the report assembly of the transcription pipeline. The theory embeds the two
  reporters, \<^verbatim>\<open>export/html_reporter.py\<close> (class \<^verbatim>\<open>HTMLTranscriptionReporter\<close>) and
  \<^verbatim>\<open>qos/reporter.py\<close> (class \<^verbatim>\<open>QoSReporter\<close>), and proves their properties. A method whose
  name starts with an underscore keeps its name without it.
\<close>

section \<open>Text as the files hold it\<close>

text \<open>
  Every file of the pipeline is opened with \<^verbatim>\<open>encoding='utf-8'\<close>, so a text is modelled
  as the sequence of its UTF-8 bytes: an ASCII character is one \<^typ>\<open>char\<close>, any other code
  point is the two to four bytes of its encoding. Concatenation, splitting at an ASCII
  separator and joining commute with the encoding, so the byte model computes what Python's
  \<^verbatim>\<open>str\<close> operations compute on the decoded text.
\<close>

definition nl :: char where
  "nl = CHR 0x0A"

text \<open>
  The code points for which Python's \<^verbatim>\<open>str.isspace\<close> holds, each as its UTF-8 encoding:
  U+0009..U+000D, U+001C..U+001F, U+0020, U+0085, U+00A0, U+1680, U+2000..U+200A, U+2028,
  U+2029, U+202F, U+205F and U+3000.
\<close>

definition py_whitespace :: "string list" where
  "py_whitespace =
     [[CHR 0x09], [CHR 0x0A], [CHR 0x0B], [CHR 0x0C], [CHR 0x0D],
      [CHR 0x1C], [CHR 0x1D], [CHR 0x1E], [CHR 0x1F], [CHR 0x20],
      [CHR 0xC2, CHR 0x85], [CHR 0xC2, CHR 0xA0], [CHR 0xE1, CHR 0x9A, CHR 0x80],
      [CHR 0xE2, CHR 0x80, CHR 0x80], [CHR 0xE2, CHR 0x80, CHR 0x81],
      [CHR 0xE2, CHR 0x80, CHR 0x82], [CHR 0xE2, CHR 0x80, CHR 0x83],
      [CHR 0xE2, CHR 0x80, CHR 0x84], [CHR 0xE2, CHR 0x80, CHR 0x85],
      [CHR 0xE2, CHR 0x80, CHR 0x86], [CHR 0xE2, CHR 0x80, CHR 0x87],
      [CHR 0xE2, CHR 0x80, CHR 0x88], [CHR 0xE2, CHR 0x80, CHR 0x89],
      [CHR 0xE2, CHR 0x80, CHR 0x8A], [CHR 0xE2, CHR 0x80, CHR 0xA8],
      [CHR 0xE2, CHR 0x80, CHR 0xA9], [CHR 0xE2, CHR 0x80, CHR 0xAF],
      [CHR 0xE2, CHR 0x81, CHR 0x9F], [CHR 0xE3, CHR 0x80, CHR 0x80]]"

text \<open>
  \<open>ws_head seqs s\<close> is the number of bytes of the whitespace character that \<open>s\<close> starts
  with, and 0 when it starts with none. \<open>lstrip_by\<close> removes such characters from the
  front until none is left; \<open>py_strip\<close> is \<^verbatim>\<open>str.strip()\<close>: the same at both ends.
\<close>

definition ws_head :: "string list \<Rightarrow> string \<Rightarrow> nat" where
  "ws_head seqs s = (case find (\<lambda>w. prefix w s) seqs of None \<Rightarrow> 0 | Some w \<Rightarrow> length w)"

function lstrip_by :: "string list \<Rightarrow> string \<Rightarrow> string" where
  "lstrip_by seqs s =
     (if ws_head seqs s = 0 \<or> s = [] then s else lstrip_by seqs (drop (ws_head seqs s) s))"
  by pat_completeness auto
termination
  by (relation "measure (\<lambda>(seqs, s). length s)") auto

declare lstrip_by.simps [simp del]

definition py_strip :: "string \<Rightarrow> string" where
  "py_strip s = rev (lstrip_by (map rev py_whitespace) (rev (lstrip_by py_whitespace s)))"

text \<open>
  \<open>split_str sep s\<close> is \<^verbatim>\<open>s.split(sep)\<close>: the pieces between the occurrences of \<open>sep\<close>,
  found from the left and not overlapping; an empty text gives one empty piece. The source
  only splits at the literals \<^verbatim>\<open>'\n\n'\<close> and \<^verbatim>\<open>'\n'\<close> (Python raises on an empty separator,
  which the model treats as a separator that never occurs).
\<close>

fun push :: "char \<Rightarrow> string list \<Rightarrow> string list" where
  "push c [] = [[c]]"
| "push c (p # ps) = (c # p) # ps"

fun split_str :: "string \<Rightarrow> string \<Rightarrow> string list" where
  "split_str sep [] = [[]]"
| "split_str sep (c # cs) =
     (if sep \<noteq> [] \<and> prefix sep (c # cs)
      then [] # split_str sep (drop (length sep) (c # cs))
      else push c (split_str sep cs))"

text \<open>\<open>join sep xs\<close> is \<^verbatim>\<open>sep.join(xs)\<close>.\<close>

fun join :: "string \<Rightarrow> string list \<Rightarrow> string" where
  "join sep [] = []"
| "join sep [x] = x"
| "join sep (x # y # ys) = x @ sep @ join sep (y # ys)"

text \<open>\<open>dict_get m k d\<close> is \<^verbatim>\<open>m.get(k, d)\<close>.\<close>

definition dict_get :: "('k \<rightharpoonup> 'v) \<Rightarrow> 'k \<Rightarrow> 'v \<Rightarrow> 'v" where
  "dict_get m k d = (case m k of None \<Rightarrow> d | Some v \<Rightarrow> v)"

section \<open>Numbers and their formatting\<close>

text \<open>
  A Python \<^verbatim>\<open>int\<close> is an \<^typ>\<open>int\<close>; a finite double is the rational it denotes, so that
  comparisons with integer literals are exact, as they are in Python. The format
  specification \<^verbatim>\<open>:.df\<close> prints the decimal expansion with \<open>d\<close> digits after the point that
  is nearest to the value, ties going to the even digit; \<open>fmt_fixed\<close> computes it.
  Not-a-number is kept apart (\<open>None\<close> in \<open>fmt_float\<close>). Infinities and the rounding error of
  double arithmetic (of a mean, of a product by 100) are not modelled: sums, quotients and
  products are exact.
\<close>

fun digits :: "nat \<Rightarrow> string" where
  "digits n =
     (if n < 10 then [char_of (48 + n)] else digits (n div 10) @ [char_of (48 + n mod 10)])"

declare digits.simps [simp del]


definition round_half_even :: "rat \<Rightarrow> int" where
  "round_half_even q =
     (let f = \<lfloor>q\<rfloor>; r = q - of_int f
      in if r < 1 / 2 then f
         else if 1 / 2 < r then f + 1
         else if even f then f else f + 1)"

definition zero_pad :: "nat \<Rightarrow> string \<Rightarrow> string" where
  "zero_pad w s = replicate (w - length s) (CHR ''0'') @ s"

definition fmt_fixed :: "nat \<Rightarrow> rat \<Rightarrow> string" where
  "fmt_fixed d x =
     (let n = nat (round_half_even (\<bar>x\<bar> * 10 ^ d))
      in (if x < 0 then ''-'' else '''')
         @ digits (n div 10 ^ d)
         @ (if d = 0 then '''' else ''.'' @ zero_pad d (digits (n mod 10 ^ d))))"

definition fmt_float :: "nat \<Rightarrow> rat option \<Rightarrow> string" where
  "fmt_float d x = (case x of None \<Rightarrow> ''nan'' | Some r \<Rightarrow> fmt_fixed d r)"

text \<open>
  A reading of the clock, and the two \<^verbatim>\<open>strftime\<close> formats the reporter uses:
  \<^verbatim>\<open>"%d/%m/%Y %H:%M:%S"\<close> and the same with the French word between date and time
  (years of four digits, as the clock gives them).
\<close>

record datetime =
  year :: nat
  month :: nat
  day :: nat
  hour :: nat
  minute :: nat
  second :: nat

definition fmt_day :: "datetime \<Rightarrow> string" where
  "fmt_day t = zero_pad 2 (digits (day t)) @ ''/'' @ zero_pad 2 (digits (month t)) @ ''/''
               @ zero_pad 4 (digits (year t))"

definition fmt_time :: "datetime \<Rightarrow> string" where
  "fmt_time t = zero_pad 2 (digits (hour t)) @ '':'' @ zero_pad 2 (digits (minute t)) @ '':''
                @ zero_pad 2 (digits (second t))"

definition strftime_metadata :: "datetime \<Rightarrow> string" where
  "strftime_metadata t = fmt_day t @ '' '' @ fmt_time t"

definition strftime_generated :: "datetime \<Rightarrow> string" where
  "strftime_generated t = fmt_day t @ '' '' @ [CHR 0xC3, CHR 0xA0] @ '' '' @ fmt_time t"

section \<open>Failures\<close>

text \<open>
  The exceptions that the modelled code can raise. Each public method catches every
  exception at its boundary and returns \<^verbatim>\<open>False\<close>; the helpers return \<^verbatim>\<open>None\<close> or an empty
  list.
\<close>

datatype error =
  NoTranscript
  | ReadError
  | KeyError string
  | IndexError
  | WriteError

section \<open>TimedTextParser: \<^verbatim>\<open>_parse_srt_file\<close>\<close>

text \<open>
  A segment is the dictionary with the keys \<^verbatim>\<open>index\<close>, \<^verbatim>\<open>timestamps\<close> and \<^verbatim>\<open>text\<close>
  (the last field is named \<open>seg_text\<close> here).
\<close>

record segment =
  index :: string
  timestamps :: string
  seg_text :: string

text \<open>
  The loop over the blocks (source lines 79 to 93), with the list of segments built so far
  as accumulator. \<open>lines ! 0\<close> and \<open>lines ! 1\<close> are read only under the guard
  \<open>3 \<le> length lines\<close>.
\<close>

fun parse_blocks :: "string list \<Rightarrow> segment list \<Rightarrow> segment list" where
  "parse_blocks [] segments = segments"
| "parse_blocks (block # blocks) segments =
     (let lines = split_str [nl] (py_strip block)
      in if 3 \<le> length lines
         then parse_blocks blocks
                (segments @ [\<lparr>index = lines ! 0, timestamps = lines ! 1,
                               seg_text = join '' '' (drop 2 lines)\<rparr>])
         else parse_blocks blocks segments)"

text \<open>
  The argument is the content of the file, \<open>None\<close> when opening or decoding it raises: the
  handler then returns the empty list.
\<close>

definition parse_srt_file :: "string option \<Rightarrow> segment list" where
  "parse_srt_file srt =
     (case srt of
        None \<Rightarrow> []
      | Some content \<Rightarrow> parse_blocks (split_str [nl, nl] (py_strip content)) [])"

text \<open>
  The parser as the specification words it: the lines of a block are the non-empty lines
  of the trimmed block, a block qualifies when it has at least three of them, and a
  qualifying block gives the segment of its first line, its second line and the others
  joined by one space.
\<close>

definition nonempty_lines :: "string \<Rightarrow> string list" where
  "nonempty_lines block = filter (\<lambda>l. l \<noteq> []) (split_str [nl] (py_strip block))"

definition qualifies :: "string \<Rightarrow> bool" where
  "qualifies block = (3 \<le> length (nonempty_lines block))"

definition block_segment :: "string \<Rightarrow> segment" where
  "block_segment block =
     (let ls = nonempty_lines block
      in \<lparr>index = ls ! 0, timestamps = ls ! 1, seg_text = join '' '' (drop 2 ls)\<rparr>)"

section \<open>MetricsAggregator: resource logs\<close>

text \<open>
  A \<^verbatim>\<open>DataFrame\<close> read from a resource log: its columns in file order, each with its
  name and its values, one per data row (every column of a frame has as many values as the
  frame has rows). Cells are numbers, as the resource sampler writes them.
\<close>

type_synonym dataframe = "(string \<times> rat list) list"

definition df_len :: "dataframe \<Rightarrow> nat" where
  "df_len df = (case df of [] \<Rightarrow> 0 | (name, vals) # rest \<Rightarrow> length vals)"

text \<open>\<^verbatim>\<open>df.empty\<close>: no column or no row.\<close>

definition df_empty :: "dataframe \<Rightarrow> bool" where
  "df_empty df = (df = [] \<or> df_len df = 0)"

text \<open>\<^verbatim>\<open>df[name]\<close> raises \<^verbatim>\<open>KeyError\<close> when the frame has no such column.\<close>

definition column :: "dataframe \<Rightarrow> string \<Rightarrow> error + rat list" where
  "column df name = (case map_of df name of None \<Rightarrow> Inl (KeyError name) | Some vals \<Rightarrow> Inr vals)"

text \<open>\<^verbatim>\<open>Series.mean()\<close>: not-a-number (\<open>None\<close>) for a series without values.\<close>

definition series_mean :: "rat list \<Rightarrow> rat option" where
  "series_mean vals = (if vals = [] then None else Some (sum_list vals / of_nat (length vals)))"

text \<open>
  What a path to a log holds when it is read: nothing (no such file), something that
  \<^verbatim>\<open>pandas.read_csv\<close> raises on (unparsable, or without any column to parse, as a file of
  zero bytes is), or a frame.
\<close>

datatype csv_file = Csv_missing | Csv_unreadable | Csv_frame dataframe

definition read_metrics_csv :: "csv_file \<Rightarrow> dataframe option" where
  "read_metrics_csv csv =
     (case csv of
        Csv_missing \<Rightarrow> None
      | Csv_unreadable \<Rightarrow> None
      | Csv_frame df \<Rightarrow> Some df)"

text \<open>
  The entries of the dictionary \<^verbatim>\<open>metrics\<close> of \<^verbatim>\<open>generate_report\<close> (source lines 622 to
  629). The two averages are guarded by \<^verbatim>\<open>is not None\<close> only; the energy entry also by
  \<^verbatim>\<open>len(power_df) > 0\<close>. The entries are evaluated in the order of the literal, and the
  first exception leaves the dictionary unbuilt.
\<close>

definition percent_avg :: "string \<Rightarrow> dataframe option \<Rightarrow> error + string" where
  "percent_avg name df_opt =
     (case df_opt of
        None \<Rightarrow> Inr ''N/A''
      | Some df \<Rightarrow>
          (case column df name of
             Inl e \<Rightarrow> Inl e
           | Inr vals \<Rightarrow> Inr (fmt_float 1 (series_mean vals) @ ''%'')))"

definition energy_total :: "dataframe option \<Rightarrow> error + string" where
  "energy_total power_df =
     (case power_df of
        None \<Rightarrow> Inr ''N/A''
      | Some df \<Rightarrow>
          if 0 < df_len df
          then (case column df ''Energy_kWh'' of
                  Inl e \<Rightarrow> Inl e
                | Inr vals \<Rightarrow>
                    if vals = [] then Inl IndexError
                    else Inr (fmt_fixed 3 (last vals) @ '' kWh''))
          else Inr ''N/A'')"

definition compute_metrics ::
  "dataframe option \<Rightarrow> dataframe option \<Rightarrow> dataframe option \<Rightarrow> error + (string \<rightharpoonup> string)" where
  "compute_metrics cpu_df memory_df power_df =
     (case percent_avg ''CPU_Usage_Percent'' cpu_df of
        Inl e \<Rightarrow> Inl e
      | Inr cpu_avg \<Rightarrow>
          (case percent_avg ''Memory_Usage_Percent'' memory_df of
             Inl e \<Rightarrow> Inl e
           | Inr memory_avg \<Rightarrow>
               (case energy_total power_df of
                  Inl e \<Rightarrow> Inl e
                | Inr energy \<Rightarrow>
                    Inr (map_of
                      [(''audio_duration'', ''N/A''),
                       (''processing_time'', ''N/A''),
                       (''throughput'', ''N/A''),
                       (''cpu_avg'', cpu_avg),
                       (''memory_avg'', memory_avg),
                       (''energy_total'', energy)]))))"

section \<open>ImageEmbedder: \<^verbatim>\<open>_image_to_base64\<close>\<close>

definition b64_alphabet :: string where
  "b64_alphabet = ''ABCDEFGHIJKLMNOPQRSTUVWXYZabcdefghijklmnopqrstuvwxyz0123456789+/''"

definition b64_char :: "nat \<Rightarrow> char" where
  "b64_char n = b64_alphabet ! (n mod 64)"

fun b64encode :: "string \<Rightarrow> string" where
  "b64encode (a # b # c # rest) =
     (let n = (of_char a :: nat) * 65536 + of_char b * 256 + of_char c
      in [b64_char (n div 262144), b64_char (n div 4096), b64_char (n div 64), b64_char n]
         @ b64encode rest)"
| "b64encode [a, b] =
     (let n = (of_char a :: nat) * 65536 + of_char b * 256
      in [b64_char (n div 262144), b64_char (n div 4096), b64_char (n div 64), CHR ''=''])"
| "b64encode [a] =
     (let n = (of_char a :: nat) * 65536
      in [b64_char (n div 262144), b64_char (n div 4096), CHR ''='', CHR ''=''])"
| "b64encode [] = []"

text \<open>\<^verbatim>\<open>Path(image_path).suffix.lower()\<close>, for paths with \<^verbatim>\<open>/\<close> as separator.\<close>

definition to_lower :: "char \<Rightarrow> char" where
  "to_lower c =
     (if (65::nat) \<le> of_char c \<and> of_char c \<le> (90::nat) then char_of (of_char c + (32::nat)) else c)"

definition path_suffix :: "string \<Rightarrow> string" where
  "path_suffix path =
     (let name = rev (takeWhile (\<lambda>c. c \<noteq> CHR ''/'') (rev path));
          ext = rev (takeWhile (\<lambda>c. c \<noteq> CHR ''.'') (rev name))
      in if CHR ''.'' \<in> set name \<and> ext \<noteq> [] \<and> length ext + 1 < length name
         then CHR ''.'' # ext else [])"

definition mime_type :: "string \<Rightarrow> string" where
  "mime_type ext =
     (if ext = ''.png'' then ''image/png''
      else if ext = ''.jpg'' then ''image/jpeg''
      else if ext = ''.jpeg'' then ''image/jpeg''
      else if ext = ''.gif'' then ''image/gif''
      else ''image/png'')"

text \<open>
  What a path to an image holds: nothing, something that cannot be opened or read, or
  bytes. Any failure gives \<^verbatim>\<open>None\<close>.
\<close>

datatype image_file = Img_missing | Img_unreadable | Img_bytes string

definition image_to_base64 :: "string \<Rightarrow> image_file \<Rightarrow> string option" where
  "image_to_base64 image_path img =
     (case img of
        Img_bytes bytes \<Rightarrow>
          Some (''data:'' @ mime_type (map to_lower (path_suffix image_path))
                @ '';base64,'' @ b64encode bytes)
      | Img_missing \<Rightarrow> None
      | Img_unreadable \<Rightarrow> None)"

section \<open>ReportRenderer: \<^verbatim>\<open>_generate_html_template\<close>\<close>

text \<open>
  The template is one formatted string literal. Its constant stretches are the
  definitions below, each the text between two interpolations of the source (with the
  doubled braces of the literal written once), and the function concatenates them with
  the interpolated values in the order of the source.
\<close>

definition tpl_head :: string where
  \<open>tpl_head =
     join [nl]
     [''<!DOCTYPE html>'',
      ''<html lang="fr">'',
      ''<head>'',
      ''    <meta charset="UTF-8">'',
      ''    <meta name="viewport" content="width=device-width, initial-scale=1.0">'',
      ''    <title>'']\<close>

definition tpl_style_1 :: string where
  \<open>tpl_style_1 =
     join [nl]
     [''</title>'',
      ''    <link href="https://fonts.googleapis.com/css2?family=Inter:wght@300;400;600;700&display=swap" rel="stylesheet">'',
      ''    <style>'',
      ''        * {'',
      ''            margin: 0;'',
      ''            padding: 0;'',
      ''            box-sizing: border-box;'',
      ''        }'',
      ''        '',
      ''        :root {'',
      ''            --bg-primary: #0f172a;'',
      ''            --bg-secondary: #1e293b;'',
      ''            --bg-tertiary: #334155;'',
      ''            --text-primary: #f1f5f9;'',
      ''            --text-secondary: #cbd5e1;'',
      ''            --accent-primary: #3b82f6;'',
      ''            --accent-secondary: #8b5cf6;'',
      ''            --accent-success: #10b981;'',
      ''            --shadow: 0 10px 30px rgba(0, 0, 0, 0.3);'',
      ''        }'',
      ''        '',
      ''        [data-theme="light"] {'',
      ''            --bg-primary: #ffffff;'',
      ''            --bg-secondary: #f8fafc;'',
      ''            --bg-tertiary: #e2e8f0;'',
      ''            --text-primary: #0f172a;'',
      ''            --text-secondary: #475569;'',
      ''        }'',
      ''        '',
      ''        body {'',
      ''            font-family: 'Inter', sans-serif;'',
      ''            background: linear-gradient(135deg, var(--bg-primary) 0%, var(--bg-secondary) 100%);'',
      ''            color: var(--text-primary);'',
      ''            line-height: 1.6;'',
      ''            min-height: 100vh;'',
      ''            padding: 2rem;'',
      ''        }'',
      ''        '',
      ''        .container {'',
      ''            max-width: 1400px;'',
      ''            margin: 0 auto;'',
      ''        }'',
      ''        '',
      ''        header {'',
      ''            background: var(--bg-secondary);'']\<close>

definition tpl_style_2 :: string where
  \<open>tpl_style_2 =
     join [nl]
     [''            padding: 2rem;'',
      ''            border-radius: 16px;'',
      ''            margin-bottom: 2rem;'',
      ''            box-shadow: var(--shadow);'',
      ''            position: relative;'',
      ''        }'',
      ''        '',
      ''        h1 {'',
      ''            font-size: 2.5rem;'',
      ''            font-weight: 700;'',
      ''            background: linear-gradient(135deg, var(--accent-primary), var(--accent-secondary));'',
      ''            -webkit-background-clip: text;'',
      ''            -webkit-text-fill-color: transparent;'',
      ''            background-clip: text;'',
      ''            margin-bottom: 0.5rem;'',
      ''        }'',
      ''        '',
      ''        .subtitle {'',
      ''            color: var(--text-secondary);'',
      ''            font-size: 1rem;'',
      ''        }'',
      ''        '',
      ''        .theme-toggle {'',
      ''            position: absolute;'',
      ''            top: 2rem;'',
      ''            right: 2rem;'',
      ''            background: var(--bg-tertiary);'',
      ''            border: none;'',
      ''            color: var(--text-primary);'',
      ''            padding: 0.75rem 1.5rem;'',
      ''            border-radius: 8px;'',
      ''            cursor: pointer;'',
      ''            font-weight: 600;'',
      ''            transition: all 0.3s;'',
      ''        }'',
      ''        '',
      ''        .theme-toggle:hover {'',
      ''            transform: translateY(-2px);'',
      ''            box-shadow: 0 5px 15px rgba(59, 130, 246, 0.3);'',
      ''        }'',
      ''        '',
      ''        .section {'',
      ''            background: var(--bg-secondary);'',
      ''            padding: 2rem;'',
      ''            border-radius: 16px;'']\<close>

definition tpl_style_3 :: string where
  \<open>tpl_style_3 =
     join [nl]
     [''            margin-bottom: 2rem;'',
      ''            box-shadow: var(--shadow);'',
      ''        }'',
      ''        '',
      ''        .section-title {'',
      ''            font-size: 1.75rem;'',
      ''            font-weight: 600;'',
      ''            margin-bottom: 1.5rem;'',
      ''            color: var(--text-primary);'',
      ''            border-left: 4px solid var(--accent-primary);'',
      ''            padding-left: 1rem;'',
      ''        }'',
      ''        '',
      ''        .metrics-grid {'',
      ''            display: grid;'',
      ''            grid-template-columns: repeat(auto-fit, minmax(200px, 1fr));'',
      ''            gap: 1.5rem;'',
      ''            margin-bottom: 2rem;'',
      ''        }'',
      ''        '',
      ''        .metric-card {'',
      ''            background: linear-gradient(135deg, var(--bg-tertiary) 0%, var(--bg-secondary) 100%);'',
      ''            padding: 1.5rem;'',
      ''            border-radius: 12px;'',
      ''            text-align: center;'',
      ''            transition: transform 0.3s, box-shadow 0.3s;'',
      ''        }'',
      ''        '',
      ''        .metric-card:hover {'',
      ''            transform: translateY(-5px);'',
      ''            box-shadow: 0 10px 25px rgba(59, 130, 246, 0.2);'',
      ''        }'',
      ''        '',
      ''        .metric-label {'',
      ''            font-size: 0.875rem;'',
      ''            color: var(--text-secondary);'',
      ''            text-transform: uppercase;'',
      ''            letter-spacing: 0.5px;'',
      ''            margin-bottom: 0.5rem;'',
      ''        }'',
      ''        '',
      ''        .metric-value {'',
      ''            font-size: 2rem;'',
      ''            font-weight: 700;'',
      ''            background: linear-gradient(135deg, var(--accent-primary), var(--accent-success));'']\<close>

definition tpl_style_4 :: string where
  \<open>tpl_style_4 =
     join [nl]
     [''            -webkit-background-clip: text;'',
      ''            -webkit-text-fill-color: transparent;'',
      ''            background-clip: text;'',
      ''        }'',
      ''        '',
      ''        .transcription-box {'',
      ''            background: var(--bg-tertiary);'',
      ''            padding: 2rem;'',
      ''            border-radius: 12px;'',
      ''            font-size: 1.1rem;'',
      ''            line-height: 1.8;'',
      ''            white-space: pre-wrap;'',
      ''            max-height: 500px;'',
      ''            overflow-y: auto;'',
      ''            position: relative;'',
      ''        }'',
      ''        '',
      ''        .copy-btn {'',
      ''            position: absolute;'',
      ''            top: 1rem;'',
      ''            right: 1rem;'',
      ''            background: var(--accent-primary);'',
      ''            color: white;'',
      ''            border: none;'',
      ''            padding: 0.5rem 1rem;'',
      ''            border-radius: 6px;'',
      ''            cursor: pointer;'',
      ''            font-weight: 600;'',
      ''            transition: all 0.3s;'',
      ''        }'',
      ''        '',
      ''        .copy-btn:hover {'',
      ''            background: var(--accent-secondary);'',
      ''            transform: scale(1.05);'',
      ''        }'',
      ''        '',
      ''        .segment {'',
      ''            background: var(--bg-tertiary);'',
      ''            padding: 1rem;'',
      ''            border-radius: 8px;'',
      ''            margin-bottom: 1rem;'',
      ''            border-left: 3px solid var(--accent-primary);'',
      ''            transition: all 0.3s;'',
      ''        }'',
      ''        '']\<close>

definition tpl_style_5 :: string where
  \<open>tpl_style_5 =
     join [nl]
     [''        .segment:hover {'',
      ''            background: var(--bg-primary);'',
      ''            transform: translateX(5px);'',
      ''        }'',
      ''        '',
      ''        .segment-time {'',
      ''            font-size: 0.875rem;'',
      ''            color: var(--accent-primary);'',
      ''            font-weight: 600;'',
      ''            margin-bottom: 0.5rem;'',
      ''        }'',
      ''        '',
      ''        .segment-text {'',
      ''            color: var(--text-primary);'',
      ''        }'',
      ''        '',
      ''        .graph-container {'',
      ''            margin: 2rem 0;'',
      ''            border-radius: 12px;'',
      ''            overflow: hidden;'',
      ''            box-shadow: var(--shadow);'',
      ''        }'',
      ''        '',
      ''        .graph-image {'',
      ''            width: 100%;'',
      ''            height: auto;'',
      ''            display: block;'',
      ''        }'',
      ''        '',
      ''        .metadata-grid {'',
      ''            display: grid;'',
      ''            grid-template-columns: repeat(auto-fit, minmax(250px, 1fr));'',
      ''            gap: 1rem;'',
      ''        }'',
      ''        '',
      ''        .metadata-item {'',
      ''            background: var(--bg-tertiary);'',
      ''            padding: 1rem;'',
      ''            border-radius: 8px;'',
      ''        }'',
      ''        '',
      ''        .metadata-label {'',
      ''            font-size: 0.875rem;'',
      ''            color: var(--text-secondary);'',
      ''            margin-bottom: 0.25rem;'']\<close>

definition tpl_style_6 :: string where
  \<open>tpl_style_6 =
     join [nl]
     [''        }'',
      ''        '',
      ''        .metadata-value {'',
      ''            font-weight: 600;'',
      ''            color: var(--text-primary);'',
      ''        }'',
      ''        '',
      ''        .collapsible {'',
      ''            cursor: pointer;'',
      ''            user-select: none;'',
      ''            display: flex;'',
      ''            align-items: center;'',
      ''            justify-content: space-between;'',
      ''        }'',
      ''        '',
      ''        .collapsible::after {'',
      ''            content: '' @ [CHR 0x27, CHR 0xE2, CHR 0x96, CHR 0xBC, CHR 0x27] @ '';'',
      ''            transition: transform 0.3s;'',
      ''        }'',
      ''        '',
      ''        .collapsible.active::after {'',
      ''            transform: rotate(-180deg);'',
      ''        }'',
      ''        '',
      ''        .collapsible-content {'',
      ''            max-height: 0;'',
      ''            overflow: hidden;'',
      ''            transition: max-height 0.3s ease-out;'',
      ''        }'',
      ''        '',
      ''        .collapsible-content.active {'',
      ''            max-height: 5000px;'',
      ''        }'',
      ''        '',
      ''        @media (max-width: 768px) {'',
      ''            body {'',
      ''                padding: 1rem;'',
      ''            }'',
      ''            '',
      ''            h1 {'',
      ''                font-size: 2rem;'',
      ''            }'',
      ''            '',
      ''            .metrics-grid {'',
      ''                grid-template-columns: repeat(auto-fit, minmax(150px, 1fr));'']\<close>

definition tpl_style_7 :: string where
  \<open>tpl_style_7 =
     join [nl]
     [''            }'',
      ''            '',
      ''            .theme-toggle {'',
      ''                position: static;'',
      ''                margin-top: 1rem;'',
      ''                width: 100%;'',
      ''            }'',
      ''        }'',
      ''    </style>'',
      ''</head>'',
      ''<body>'',
      ''    <div class="container">'',
      ''        <header>'',
      ''            <h1>'']\<close>

definition tpl_style :: string where
  "tpl_style = join [nl] [tpl_style_1, tpl_style_2, tpl_style_3, tpl_style_4, tpl_style_5, tpl_style_6, tpl_style_7]"

definition tpl_subtitle :: string where
  \<open>tpl_subtitle =
     join [nl]
     [''</h1>'',
      ''            <div class="subtitle">G'' @ [CHR 0xC3, CHR 0xA9] @ ''n'' @ [CHR 0xC3, CHR 0xA9] @ ''r'' @ [CHR 0xC3, CHR 0xA9] @ '' le '']\<close>

definition tpl_metrics_section :: string where
  \<open>tpl_metrics_section =
     join [nl]
     [''</div>'',
      ''            <button class="theme-toggle" onclick="toggleTheme()">'' @ [CHR 0xF0, CHR 0x9F, CHR 0x8C, CHR 0x93] @ '' Changer le th'' @ [CHR 0xC3, CHR 0xA8] @ ''me</button>'',
      ''        </header>'',
      ''        '',
      ''        <!-- M'' @ [CHR 0xC3, CHR 0xA9] @ ''triques -->'',
      ''        <section class="section">'',
      ''            <h2 class="section-title">'' @ [CHR 0xF0, CHR 0x9F, CHR 0x93, CHR 0x8A] @ '' M'' @ [CHR 0xC3, CHR 0xA9] @ ''triques de Performance</h2>'',
      ''            '']\<close>

definition tpl_metadata_section :: string where
  \<open>tpl_metadata_section =
     join [nl]
     ['''',
      ''        </section>'',
      ''        '',
      ''        <!-- M'' @ [CHR 0xC3, CHR 0xA9] @ ''tadonn'' @ [CHR 0xC3, CHR 0xA9] @ ''es -->'',
      ''        <section class="section">'',
      ''            <h2 class="section-title">'' @ [CHR 0xE2, CHR 0x84, CHR 0xB9, CHR 0xEF, CHR 0xB8, CHR 0x8F] @ '' M'' @ [CHR 0xC3, CHR 0xA9] @ ''tadonn'' @ [CHR 0xC3, CHR 0xA9] @ ''es</h2>'',
      '''']\<close>

definition grid_filename :: string where
  \<open>grid_filename =
     join [nl]
     [''            <div class="metadata-grid">'',
      ''                <div class="metadata-item">'',
      ''                    <div class="metadata-label">Fichier Source</div>'',
      ''                    <div class="metadata-value">'']\<close>

definition grid_model :: string where
  \<open>grid_model =
     join [nl]
     [''</div>'',
      ''                </div>'',
      ''                <div class="metadata-item">'',
      ''                    <div class="metadata-label">Mod'' @ [CHR 0xC3, CHR 0xA8] @ ''le Whisper</div>'',
      ''                    <div class="metadata-value">'']\<close>

definition grid_language :: string where
  \<open>grid_language =
     join [nl]
     [''</div>'',
      ''                </div>'',
      ''                <div class="metadata-item">'',
      ''                    <div class="metadata-label">Langue</div>'',
      ''                    <div class="metadata-value">'']\<close>

definition grid_date :: string where
  \<open>grid_date =
     join [nl]
     [''</div>'',
      ''                </div>'',
      ''                <div class="metadata-item">'',
      ''                    <div class="metadata-label">Date de Transcription</div>'',
      ''                    <div class="metadata-value">'']\<close>

definition grid_close :: string where
  \<open>grid_close =
     join [nl]
     [''</div>'',
      ''                </div>'',
      ''            </div>'']\<close>

definition tpl_transcription :: string where
  \<open>tpl_transcription =
     join [nl]
     ['''',
      ''        </section>'',
      ''        '',
      ''        <!-- Texte complet -->'',
      ''        <section class="section">'',
      ''            <h2 class="section-title">'' @ [CHR 0xF0, CHR 0x9F, CHR 0x93, CHR 0x9D] @ '' Transcription Compl'' @ [CHR 0xC3, CHR 0xA8] @ ''te</h2>'',
      ''            <div class="transcription-box" id="transcription-text">'',
      ''                <button class="copy-btn" onclick="copyTranscription()">'' @ [CHR 0xF0, CHR 0x9F, CHR 0x93, CHR 0x8B] @ '' Copier</button>'',
      '''']\<close>

definition tpl_segments_comment :: string where
  \<open>tpl_segments_comment =
     join [nl]
     ['''',
      ''            </div>'',
      ''        </section>'',
      ''        '',
      ''        <!-- Segments -->'',
      ''        '']\<close>

definition tpl_graphs_comment :: string where
  \<open>tpl_graphs_comment =
     join [nl]
     ['''',
      ''        '',
      ''        <!-- Graphiques -->'',
      ''        '']\<close>

definition tpl_script :: string where
  \<open>tpl_script =
     join [nl]
     ['''',
      ''    </div>'',
      ''    '',
      ''    <script>'',
      ''        function toggleTheme() {'',
      ''            const root = document.documentElement;'',
      ''            const currentTheme = root.getAttribute('data-theme');'',
      ''            const newTheme = currentTheme === 'light' ? 'dark' : 'light';'',
      ''            root.setAttribute('data-theme', newTheme);'',
      ''            localStorage.setItem('theme', newTheme);'',
      ''        }'',
      ''        '',
      ''        function copyTranscription() {'',
      ''            const text = document.getElementById('transcription-text').textContent;'',
      ''            navigator.clipboard.writeText(text).then(() => {'',
      ''                const btn = event.target;'',
      ''                const originalText = btn.textContent;'',
      ''                btn.textContent = '' @ [CHR 0x27, CHR 0xE2, CHR 0x9C, CHR 0x93] @ '' Copi'' @ [CHR 0xC3, CHR 0xA9] @ '' !';'',
      ''                setTimeout(() => {'',
      ''                    btn.textContent = originalText;'',
      ''                }, 2000);'',
      ''            });'',
      ''        }'',
      ''        '',
      ''        function toggleSection(id) {'',
      ''            const content = document.getElementById(id);'',
      ''            const header = event.currentTarget;'',
      ''            content.classList.toggle('active');'',
      ''            header.classList.toggle('active');'',
      ''        }'',
      ''        '',
      ''        // Charger le th'' @ [CHR 0xC3, CHR 0xA8] @ ''me sauvegard'' @ [CHR 0xC3, CHR 0xA9],
      ''        const savedTheme = localStorage.getItem('theme') || 'dark';'',
      ''        document.documentElement.setAttribute('data-theme', savedTheme);'',
      ''    </script>'',
      ''</body>'',
      ''</html>'']\<close>

definition segments_section_open :: string where
  \<open>segments_section_open =
     join [nl]
     [''<section class="section">'',
      ''            <h2 class="section-title collapsible" onclick="toggleSection('segments')">'' @ [CHR 0xE2, CHR 0x8F, CHR 0xB1, CHR 0xEF, CHR 0xB8, CHR 0x8F] @ '' Segments D'' @ [CHR 0xC3, CHR 0xA9] @ ''taill'' @ [CHR 0xC3, CHR 0xA9] @ ''s</h2>'',
      ''            <div class="collapsible-content" id="segments">'',
      ''                '']\<close>

definition segments_section_close :: string where
  \<open>segments_section_close =
     join [nl]
     ['''',
      ''            </div>'',
      ''        </section>'']\<close>

definition graphs_section_open :: string where
  \<open>graphs_section_open =
     join [nl]
     [''<section class="section">'',
      ''            <h2 class="section-title collapsible" onclick="toggleSection('graphs')">'' @ [CHR 0xF0, CHR 0x9F, CHR 0x93, CHR 0x88] @ '' Graphiques de Monitoring</h2>'',
      ''            <div class="collapsible-content" id="graphs">'',
      ''                '']\<close>

definition graphs_section_close :: string where
  \<open>graphs_section_close =
     join [nl]
     ['''',
      ''            </div>'',
      ''        </section>'']\<close>

definition segment_open :: string where
  \<open>segment_open =
     join [nl]
     ['''',
      ''            <div class="segment">'',
      ''                <div class="segment-time">'']\<close>

definition segment_mid :: string where
  \<open>segment_mid =
     join [nl]
     [''</div>'',
      ''                <div class="segment-text">'']\<close>

definition segment_close :: string where
  \<open>segment_close =
     join [nl]
     [''</div>'',
      ''            </div>'',
      ''            '']\<close>

definition graph_open :: string where
  \<open>graph_open =
     join [nl]
     ['''',
      ''                <div class="graph-container">'',
      ''                    <img src="'']\<close>

definition graph_mid :: string where
  \<open>graph_mid =
     ''" alt="''\<close>

definition graph_close :: string where
  \<open>graph_close =
     join [nl]
     [''" class="graph-image">'',
      ''                </div>'',
      ''                '']\<close>

definition cards_audio_duration :: string where
  \<open>cards_audio_duration =
     join [nl]
     ['''',
      ''        <div class="metrics-grid">'',
      ''            <div class="metric-card">'',
      ''                <div class="metric-label">Dur'' @ [CHR 0xC3, CHR 0xA9] @ ''e Audio</div>'',
      ''                <div class="metric-value">'']\<close>

definition cards_processing_time :: string where
  \<open>cards_processing_time =
     join [nl]
     [''</div>'',
      ''            </div>'',
      ''            <div class="metric-card">'',
      ''                <div class="metric-label">Temps de Traitement</div>'',
      ''                <div class="metric-value">'']\<close>

definition cards_throughput :: string where
  \<open>cards_throughput =
     join [nl]
     [''</div>'',
      ''            </div>'',
      ''            <div class="metric-card">'',
      ''                <div class="metric-label">Throughput</div>'',
      ''                <div class="metric-value">'']\<close>

definition cards_cpu_avg :: string where
  \<open>cards_cpu_avg =
     join [nl]
     [''</div>'',
      ''            </div>'',
      ''            <div class="metric-card">'',
      ''                <div class="metric-label">CPU Moyen</div>'',
      ''                <div class="metric-value">'']\<close>

definition cards_memory_avg :: string where
  \<open>cards_memory_avg =
     join [nl]
     [''</div>'',
      ''            </div>'',
      ''            <div class="metric-card">'',
      ''                <div class="metric-label">RAM Moyenne</div>'',
      ''                <div class="metric-value">'']\<close>

definition cards_energy_total :: string where
  \<open>cards_energy_total =
     join [nl]
     [''</div>'',
      ''            </div>'',
      ''            <div class="metric-card">'',
      ''                <div class="metric-label">'' @ [CHR 0xC3, CHR 0x89] @ ''nergie Totale</div>'',
      ''                <div class="metric-value">'']\<close>

definition cards_end :: string where
  \<open>cards_end =
     join [nl]
     [''</div>'',
      ''            </div>'',
      ''        </div>'',
      ''        '']\<close>

text \<open>The two loops that build \<^verbatim>\<open>segments_html\<close> and \<^verbatim>\<open>graphs_html\<close> (source lines 145 to 162).\<close>

definition segment_html :: "segment \<Rightarrow> string" where
  "segment_html seg = segment_open @ timestamps seg @ segment_mid @ seg_text seg @ segment_close"

definition build_segments_html :: "segment list \<Rightarrow> string" where
  "build_segments_html segments = foldl (\<lambda>segments_html seg. segments_html @ segment_html seg) [] segments"

text \<open>
  \<^verbatim>\<open>graph_images\<close> is a dictionary from the name of a chart to its data URI, or to
  \<^verbatim>\<open>None\<close> when the image could not be encoded; it is traversed in insertion order, so it
  is an association list here. \<^verbatim>\<open>if base64_img\<close> skips \<^verbatim>\<open>None\<close> and the empty string.
\<close>

definition graph_html :: "string \<Rightarrow> string \<Rightarrow> string" where
  "graph_html name base64_img = graph_open @ base64_img @ graph_mid @ name @ graph_close"

definition build_graphs_html :: "(string \<times> string option) list \<Rightarrow> string" where
  "build_graphs_html graph_images =
     foldl (\<lambda>graphs_html (name, base64_img).
              case base64_img of
                None \<Rightarrow> graphs_html
              | Some img \<Rightarrow> if img \<noteq> [] then graphs_html @ graph_html name img else graphs_html)
       [] graph_images"

text \<open>\<^verbatim>\<open>metrics_cards\<close> (source lines 165 to 192).\<close>

definition metrics_cards :: "(string \<rightharpoonup> string) \<Rightarrow> string" where
  "metrics_cards metrics =
     cards_audio_duration @ dict_get metrics ''audio_duration'' ''N/A''
     @ cards_processing_time @ dict_get metrics ''processing_time'' ''N/A''
     @ cards_throughput @ dict_get metrics ''throughput'' ''N/A''
     @ cards_cpu_avg @ dict_get metrics ''cpu_avg'' ''N/A''
     @ cards_memory_avg @ dict_get metrics ''memory_avg'' ''N/A''
     @ cards_energy_total @ dict_get metrics ''energy_total'' ''N/A''
     @ cards_end"

text \<open>The metadata grid (source lines 496 to 513).\<close>

definition metadata_grid :: "(string \<rightharpoonup> string) \<Rightarrow> string" where
  "metadata_grid metadata =
     grid_filename @ dict_get metadata ''filename'' ''N/A''
     @ grid_model @ dict_get metadata ''model'' ''N/A''
     @ grid_language @ dict_get metadata ''language'' ''N/A''
     @ grid_date @ dict_get metadata ''date'' ''N/A''
     @ grid_close"

text \<open>
  The two conditional sections (source lines 526 to 539): the first is gated by
  \<^verbatim>\<open>if segments\<close>, the second by \<^verbatim>\<open>if graph_images\<close>, the truth value of the dictionary.
\<close>

definition segments_section :: "segment list \<Rightarrow> string" where
  "segments_section segments =
     (if segments \<noteq> []
      then segments_section_open @ build_segments_html segments @ segments_section_close
      else [])"

definition graphs_section :: "(string \<times> string option) list \<Rightarrow> string" where
  "graphs_section graph_images =
     (if graph_images \<noteq> []
      then graphs_section_open @ build_graphs_html graph_images @ graphs_section_close
      else [])"

text \<open>
  The document. \<open>now\<close> is what \<^verbatim>\<open>datetime.now()\<close> returns at source line 483, the only
  reading of the clock in the function.
\<close>

definition generate_html_template ::
  "datetime \<Rightarrow> string \<Rightarrow> string \<Rightarrow> segment list \<Rightarrow> (string \<rightharpoonup> string) \<Rightarrow> (string \<rightharpoonup> string)
   \<Rightarrow> (string \<times> string option) list \<Rightarrow> string" where
  "generate_html_template now title transcription_text segments metadata metrics graph_images =
     tpl_head @ title
     @ tpl_style @ title
     @ tpl_subtitle @ strftime_generated now
     @ tpl_metrics_section @ metrics_cards metrics
     @ tpl_metadata_section @ metadata_grid metadata
     @ tpl_transcription @ transcription_text
     @ tpl_segments_comment @ segments_section segments
     @ tpl_graphs_comment @ graphs_section graph_images
     @ tpl_script"

section \<open>ReportOrchestrator: \<^verbatim>\<open>generate_report\<close>\<close>

text \<open>
  What one call finds in the transcription directory and around it: the transcript and
  subtitle files that the two \<^verbatim>\<open>glob\<close> patterns match, in the order of the match, each with
  its content (\<open>None\<close> when it cannot be read or decoded); the three resource logs and the
  three chart images at their fixed names; the two readings of the clock, the first for the
  metadata (source line 643), the second inside the template; and whether the output file
  can be written.
\<close>

record report_inputs =
  txt_file :: "string option list"
  srt_file :: "string option list"
  monitoring_cpu :: csv_file
  monitoring_memory :: csv_file
  monitoring_power :: csv_file
  cpu_usage_png :: image_file
  memory_usage_png :: image_file
  power_usage_png :: image_file
  clock_metadata :: datetime
  clock_template :: datetime
  output_writable :: bool

text \<open>The loop over the three chart names (source lines 632 to 636).\<close>

fun load_graph_images ::
  "(string \<times> image_file) list \<Rightarrow> (string \<times> string option) list \<Rightarrow> (string \<times> string option) list" where
  "load_graph_images [] graph_images = graph_images"
| "load_graph_images ((graph_name, img) # rest) graph_images =
     (if img \<noteq> Img_missing
      then load_graph_images rest (graph_images @ [(graph_name, image_to_base64 graph_name img)])
      else load_graph_images rest graph_images)"

definition report_metadata :: "report_inputs \<Rightarrow> string \<Rightarrow> (string \<rightharpoonup> string)" where
  "report_metadata inp audio_filename =
     map_of
       [(''filename'', audio_filename),
        (''model'', ''small''),
        (''language'', ''fr''),
        (''date'', strftime_metadata (clock_metadata inp))]"

text \<open>
  The body of the \<^verbatim>\<open>try\<close> block: the document that is written, or the exception that
  reaches the handler. \<open>generate_report\<close> is the method itself, which returns \<^verbatim>\<open>True\<close> when
  the document was written and \<^verbatim>\<open>False\<close> from the early return and from the handler.
\<close>

definition generate_report_html :: "report_inputs \<Rightarrow> string \<Rightarrow> error + string" where
  "generate_report_html inp audio_filename =
     (case txt_file inp of
        [] \<Rightarrow> Inl NoTranscript
      | txt # other_txt \<Rightarrow>
          (case txt of
             None \<Rightarrow> Inl ReadError
           | Some transcription_text \<Rightarrow>
               (let segments = (case srt_file inp of [] \<Rightarrow> [] | srt # other_srt \<Rightarrow> parse_srt_file srt);
                    cpu_df = read_metrics_csv (monitoring_cpu inp);
                    memory_df = read_metrics_csv (monitoring_memory inp);
                    power_df = read_metrics_csv (monitoring_power inp)
                in case compute_metrics cpu_df memory_df power_df of
                     Inl e \<Rightarrow> Inl e
                   | Inr metrics \<Rightarrow>
                       (let graph_images =
                              load_graph_images
                                [(''cpu_usage.png'', cpu_usage_png inp),
                                 (''memory_usage.png'', memory_usage_png inp),
                                 (''power_usage.png'', power_usage_png inp)] [];
                            metadata = report_metadata inp audio_filename;
                            html = generate_html_template (clock_template inp)
                                     (''Rapport de Transcription - '' @ audio_filename)
                                     transcription_text segments metadata metrics graph_images
                        in if output_writable inp then Inr html else Inl WriteError))))"

definition generate_report :: "report_inputs \<Rightarrow> string \<Rightarrow> bool" where
  "generate_report inp audio_filename =
     (case generate_report_html inp audio_filename of Inl e \<Rightarrow> False | Inr html \<Rightarrow> True)"

text \<open>
  The grid of metric cards as the specification words it: an opening, one card per metric
  with its label and its value, in a fixed order, and a closing.
\<close>

definition metrics_grid_open :: string where
  \<open>metrics_grid_open =
     join [nl]
     ['''',
      ''        <div class="metrics-grid">'']\<close>

definition metric_card_open :: string where
  \<open>metric_card_open =
     join [nl]
     ['''',
      ''            <div class="metric-card">'',
      ''                <div class="metric-label">'']\<close>

definition metric_card_mid :: string where
  \<open>metric_card_mid =
     join [nl]
     [''</div>'',
      ''                <div class="metric-value">'']\<close>

definition metric_card_close :: string where
  \<open>metric_card_close =
     join [nl]
     [''</div>'',
      ''            </div>'']\<close>

definition metrics_grid_close :: string where
  \<open>metrics_grid_close =
     join [nl]
     ['''',
      ''        </div>'',
      ''        '']\<close>

definition metric_labels :: "(string \<times> string) list" where
  \<open>metric_labels =
     [(''Dur'' @ [CHR 0xC3, CHR 0xA9] @ ''e Audio'', ''audio_duration''),
      (''Temps de Traitement'', ''processing_time''),
      (''Throughput'', ''throughput''),
      (''CPU Moyen'', ''cpu_avg''),
      (''RAM Moyenne'', ''memory_avg''),
      ([CHR 0xC3, CHR 0x89] @ ''nergie Totale'', ''energy_total'')]\<close>

definition metric_card :: "string \<Rightarrow> string \<Rightarrow> string" where
  "metric_card label val = metric_card_open @ label @ metric_card_mid @ val @ metric_card_close"

section \<open>ChartRenderer: \<^verbatim>\<open>plot_cpu_usage\<close> and \<^verbatim>\<open>plot_memory_usage\<close>\<close>

text \<open>
  A chart is what the drawing calls are given: the series plotted over the sample index,
  the horizontal lines and their legend labels. \<open>EmptySeries\<close> is the early return on
  \<^verbatim>\<open>df.empty\<close>, which is not an exception but ends the call with \<^verbatim>\<open>False\<close> like one.
\<close>

datatype chart_error = EmptySeries | Raised error

record cpu_chart =
  cpu_series :: "rat list"
  cpu_mean_line :: "rat option"
  cpu_mean_label :: string

record memory_gb_panel =
  used_series :: "rat list"
  total_line :: rat
  total_label :: string

record memory_chart =
  percent_series :: "rat list"
  percent_mean_line :: "rat option"
  percent_mean_label :: string
  alert_line :: rat
  gb_panel :: "memory_gb_panel option"

text \<open>
  \<open>savefig_ok\<close> tells whether \<^verbatim>\<open>plt.savefig\<close> completes. The result of the \<open>render\<close>
  functions is the chart that was saved, or the reason why none was; the methods return
  the truth value and, with it here, the image file they wrote.
\<close>

definition render_cpu_chart :: "csv_file \<Rightarrow> bool \<Rightarrow> chart_error + cpu_chart" where
  "render_cpu_chart cpu_csv_file savefig_ok =
     (case cpu_csv_file of
        Csv_missing \<Rightarrow> Inl (Raised ReadError)
      | Csv_unreadable \<Rightarrow> Inl (Raised ReadError)
      | Csv_frame df \<Rightarrow>
          if df_empty df then Inl EmptySeries
          else (case column df ''CPU_Usage_Percent'' of
                  Inl e \<Rightarrow> Inl (Raised e)
                | Inr vals \<Rightarrow>
                    (let mean_cpu = series_mean vals;
                         chart = \<lparr>cpu_series = vals, cpu_mean_line = mean_cpu,
                                  cpu_mean_label = ''Moyenne: '' @ fmt_float 1 mean_cpu @ ''%''\<rparr>
                     in if savefig_ok then Inr chart else Inl (Raised WriteError))))"

definition plot_cpu_usage :: "csv_file \<Rightarrow> bool \<Rightarrow> bool \<times> cpu_chart option" where
  "plot_cpu_usage cpu_csv_file savefig_ok =
     (case render_cpu_chart cpu_csv_file savefig_ok of
        Inl e \<Rightarrow> (False, None)
      | Inr chart \<Rightarrow> (True, Some chart))"

text \<open>
  The second panel is drawn when both absolute columns are present; its reference line
  is the first value of \<^verbatim>\<open>Memory_Total_GB\<close>.
\<close>

definition render_gb_panel :: "dataframe \<Rightarrow> error + memory_gb_panel option" where
  "render_gb_panel df =
     (case (map_of df ''Memory_Used_GB'', map_of df ''Memory_Total_GB'') of
        (Some used_gb, Some total_gb) \<Rightarrow>
          (case total_gb of
             [] \<Rightarrow> Inl IndexError
           | t # ts \<Rightarrow>
               Inr (Some \<lparr>used_series = used_gb, total_line = t,
                          total_label = ''RAM totale: '' @ fmt_fixed 1 t @ '' Go''\<rparr>))
      | other \<Rightarrow> Inr None)"

definition render_memory_chart :: "csv_file \<Rightarrow> bool \<Rightarrow> chart_error + memory_chart" where
  "render_memory_chart memory_csv_file savefig_ok =
     (case memory_csv_file of
        Csv_missing \<Rightarrow> Inl (Raised ReadError)
      | Csv_unreadable \<Rightarrow> Inl (Raised ReadError)
      | Csv_frame df \<Rightarrow>
          if df_empty df then Inl EmptySeries
          else (case column df ''Memory_Usage_Percent'' of
                  Inl e \<Rightarrow> Inl (Raised e)
                | Inr vals \<Rightarrow>
                    (case render_gb_panel df of
                       Inl e \<Rightarrow> Inl (Raised e)
                     | Inr panel \<Rightarrow>
                         (let mean_mem = series_mean vals;
                              chart = \<lparr>percent_series = vals, percent_mean_line = mean_mem,
                                       percent_mean_label = ''Moyenne: '' @ fmt_float 1 mean_mem @ ''%'',
                                       alert_line = 90, gb_panel = panel\<rparr>
                          in if savefig_ok then Inr chart else Inl (Raised WriteError)))))"

definition plot_memory_usage :: "csv_file \<Rightarrow> bool \<Rightarrow> bool \<times> memory_chart option" where
  "plot_memory_usage memory_csv_file savefig_ok =
     (case render_memory_chart memory_csv_file savefig_ok of
        Inl e \<Rightarrow> (False, None)
      | Inr chart \<Rightarrow> (True, Some chart))"

section \<open>SummaryRenderer: \<^verbatim>\<open>generate_summary_report\<close>\<close>



















text \<open>A subtitle file of three blocks, the second with two lines only.\<close>

definition example_srt :: string where
  "example_srt =
     ''1'' @ [nl] @ ''00:00:00,000 --> 00:00:02,000'' @ [nl] @ ''Bonjour'' @ [nl] @ ''le monde''
     @ [nl, nl] @ ''2'' @ [nl] @ ''sans texte''
     @ [nl, nl] @ ''3'' @ [nl] @ ''00:00:02,000 --> 00:00:04,000'' @ [nl] @ ''Fin'' @ [nl]"

section \<open>Example inputs\<close>

text \<open>
  A directory that holds one transcript and nothing else, and the same directory with a
  processor log that has other columns than the expected one, with a processor log that
  has its header and no data row, and with a chart image that cannot be read.
\<close>

definition bonjour_inputs :: report_inputs where
  "bonjour_inputs =
     \<lparr>txt_file = [Some ''Bonjour le monde''],
      srt_file = [],
      monitoring_cpu = Csv_missing,
      monitoring_memory = Csv_missing,
      monitoring_power = Csv_missing,
      cpu_usage_png = Img_missing,
      memory_usage_png = Img_missing,
      power_usage_png = Img_missing,
      clock_metadata = \<lparr>year = 2025, month = 3, day = 9, hour = 14, minute = 5, second = 7\<rparr>,
      clock_template = \<lparr>year = 2025, month = 3, day = 9, hour = 14, minute = 5, second = 8\<rparr>,
      output_writable = True\<rparr>"

definition inputs_missing_column :: report_inputs where
  "inputs_missing_column =
     bonjour_inputs
       \<lparr>monitoring_cpu := Csv_frame [(''Sample'', [0, 1]), (''CPU'', [10, 20])],
        monitoring_memory := Csv_frame [(''Memory_Usage_Percent'', [40, 60])],
        monitoring_power := Csv_frame [(''Energy_kWh'', [1 / 1000, 3 / 1000])]\<rparr>"

definition inputs_header_only :: report_inputs where
  "inputs_header_only = bonjour_inputs\<lparr>monitoring_cpu := Csv_frame [(''CPU_Usage_Percent'', [])]\<rparr>"

definition inputs_unreadable_image :: report_inputs where
  "inputs_unreadable_image = bonjour_inputs\<lparr>cpu_usage_png := Img_unreadable\<rparr>"


section \<open>Properties of the timed-text parser\<close>

subsection \<open>Splitting and trimming\<close>

lemma split_str_nonempty: "split_str sep s \<noteq> []"
  by (induction sep s rule: split_str.induct) (auto simp: neq_Nil_conv elim: push.elims)

lemma push_eq: "ps \<noteq> [] \<Longrightarrow> push c ps = (c # hd ps) # tl ps"
  by (cases ps) auto

lemma split_str_hd_prefix: "prefix (hd (split_str sep s)) s"
  by (induction sep s rule: split_str.induct) (auto simp: push_eq split_str_nonempty)

lemma split_str_sep:
  "sep \<noteq> [] \<Longrightarrow> prefix sep (c # cs) \<Longrightarrow>
   split_str sep (c # cs) = [] # split_str sep (drop (length sep) (c # cs))"
  by simp

lemma split_str_char:
  "\<not> (sep \<noteq> [] \<and> prefix sep (c # cs)) \<Longrightarrow>
   split_str sep (c # cs) = (c # hd (split_str sep cs)) # tl (split_str sep cs)"
  using push_eq [OF split_str_nonempty, of c sep cs] by auto

lemma split_nn_pieces:
  "p \<in> set (split_str [nl, nl] s) \<Longrightarrow> \<not> sublist [nl, nl] p"
proof (induction "[nl, nl]" s arbitrary: p rule: split_str.induct)
  case 1
  then show ?case by simp
next
  case (2 c cs)
  show ?case
  proof (cases "prefix [nl, nl] (c # cs)")
    case True
    then have "split_str [nl, nl] (c # cs) = [] # split_str [nl, nl] (drop (length [nl, nl]) (c # cs))"
      by (intro split_str_sep) simp_all
    with "2.prems" "2.hyps"(1) True show ?thesis by auto
  next
    case False
    let ?r = "split_str [nl, nl] cs"
    have r: "?r \<noteq> []" by (rule split_str_nonempty)
    have "split_str [nl, nl] (c # cs) = (c # hd ?r) # tl ?r"
      using False by (intro split_str_char) simp
    with "2.prems" consider "p = c # hd ?r" | "p \<in> set (tl ?r)" by auto
    then show ?thesis
    proof cases
      case 1
      have h: "\<not> sublist [nl, nl] (hd ?r)"
        using "2.hyps"(2) False r by simp
      have pre: "prefix (hd ?r) cs" by (rule split_str_hd_prefix)
      show ?thesis
      proof
        assume "sublist [nl, nl] p"
        with 1 h have "prefix [nl, nl] (c # hd ?r)"
          by (simp add: sublist_Cons_right)
        with pre have "prefix [nl, nl] (c # cs)"
          by (meson Cons_prefix_Cons prefix_order.trans)
        with False show False by simp
      qed
    next
      case 2
      then have "p \<in> set ?r" using r by (meson list.set_sel(2))
      then show ?thesis using "2.hyps"(2) False by simp
    qed
  qed
qed


lemma lstrip_by_suffix: "suffix (lstrip_by seqs s) s"
proof (induction seqs s rule: lstrip_by.induct)
  case (1 seqs s)
  show ?case
  proof (cases "ws_head seqs s = 0 \<or> s = []")
    case True
    then show ?thesis by (subst lstrip_by.simps) simp
  next
    case False
    then have "suffix (lstrip_by seqs (drop (ws_head seqs s) s)) (drop (ws_head seqs s) s)"
      using 1 by simp
    moreover have "lstrip_by seqs s = lstrip_by seqs (drop (ws_head seqs s) s)"
      using False by (subst lstrip_by.simps) simp
    ultimately show ?thesis
      by (metis suffix_drop suffix_order.trans)
  qed
qed

lemma lstrip_by_fixed:
  "lstrip_by seqs s = [] \<or> ws_head seqs (lstrip_by seqs s) = 0"
proof (induction seqs s rule: lstrip_by.induct)
  case (1 seqs s)
  show ?case
  proof (cases "ws_head seqs s = 0 \<or> s = []")
    case True
    then have "lstrip_by seqs s = s" by (subst lstrip_by.simps) simp
    with True show ?thesis by auto
  next
    case False
    moreover have "lstrip_by seqs s = lstrip_by seqs (drop (ws_head seqs s) s)"
      using False by (subst lstrip_by.simps) simp
    ultimately show ?thesis using 1 by simp
  qed
qed

lemma ws_head_pos:
  assumes "[c] \<in> set seqs" and "[] \<notin> set seqs"
  shows "ws_head seqs (c # cs) \<noteq> 0"
proof -
  from assms(1) obtain w where w: "find (\<lambda>w. prefix w (c # cs)) seqs = Some w"
    by (cases "find (\<lambda>w. prefix w (c # cs)) seqs") (auto simp: find_None_iff)
  then have "w \<in> set seqs" by (auto simp: find_Some_iff)
  with assms(2) have "w \<noteq> []" by auto
  with w show ?thesis by (simp add: ws_head_def)
qed

lemma lstrip_by_hd:
  assumes "[c] \<in> set seqs" and "[] \<notin> set seqs" and "lstrip_by seqs s \<noteq> []"
  shows "hd (lstrip_by seqs s) \<noteq> c"
proof
  assume "hd (lstrip_by seqs s) = c"
  with assms(3) obtain cs where "lstrip_by seqs s = c # cs"
    by (cases "lstrip_by seqs s") auto
  with ws_head_pos [OF assms(1,2), of cs] lstrip_by_fixed [of seqs s]
  show False by auto
qed

lemma nl_whitespace: "[nl] \<in> set py_whitespace" "[] \<notin> set py_whitespace"
  by (simp_all add: py_whitespace_def nl_def)

lemma nl_whitespace_rev:
  "[nl] \<in> set (map rev py_whitespace)" "[] \<notin> set (map rev py_whitespace)"
  using nl_whitespace by force+

lemma py_strip_sublist: "sublist (py_strip s) s"
proof -
  let ?u = "lstrip_by py_whitespace s"
  have "suffix (lstrip_by (map rev py_whitespace) (rev ?u)) (rev ?u)"
    by (rule lstrip_by_suffix)
  then have "prefix (py_strip s) ?u"
    by (simp add: py_strip_def suffix_to_prefix)
  moreover have "suffix ?u s" by (rule lstrip_by_suffix)
  ultimately show ?thesis
    by (meson prefix_imp_sublist suffix_imp_sublist sublist_order.order_trans)
qed

lemma py_strip_ends:
  assumes "py_strip s \<noteq> []"
  shows "hd (py_strip s) \<noteq> nl" and "last (py_strip s) \<noteq> nl"
proof -
  let ?u = "lstrip_by py_whitespace s"
  let ?v = "lstrip_by (map rev py_whitespace) (rev ?u)"
  have t: "py_strip s = rev ?v" by (simp add: py_strip_def)
  with assms have v: "?v \<noteq> []" by simp
  have "hd ?v \<noteq> nl"
    using lstrip_by_hd [OF nl_whitespace_rev v] .
  then show "last (py_strip s) \<noteq> nl"
    using v by (simp add: t last_rev)
  have "suffix ?v (rev ?u)" by (rule lstrip_by_suffix)
  then have p: "prefix (py_strip s) ?u" by (simp add: t suffix_to_prefix)
  with assms have u: "?u \<noteq> []" by auto
  have "hd ?u \<noteq> nl" using lstrip_by_hd [OF nl_whitespace u] .
  moreover from p assms have "hd (py_strip s) = hd ?u"
    by (auto simp: prefix_def)
  ultimately show "hd (py_strip s) \<noteq> nl" by simp
qed

lemma split_nl_lines:
  "t \<noteq> [] \<Longrightarrow> last t \<noteq> nl \<Longrightarrow> \<not> sublist [nl, nl] t \<Longrightarrow>
   [] \<notin> set (tl (split_str [nl] t)) \<and> (hd t \<noteq> nl \<longrightarrow> hd (split_str [nl] t) \<noteq> [])"
proof (induction t)
  case Nil
  then show ?case by simp
next
  case (Cons c cs)
  let ?r = "split_str [nl] cs"
  have r: "?r \<noteq> []" by (rule split_str_nonempty)
  show ?case
  proof (cases "c = nl")
    case True
    with Cons.prems have cs: "cs \<noteq> []" by auto
    with Cons.prems True have h: "hd cs \<noteq> nl"
      by (cases cs) auto
    from Cons.prems cs have "last cs \<noteq> nl" "\<not> sublist [nl, nl] cs"
      by (auto simp: sublist_Cons_right)
    with Cons.IH cs h have "[] \<notin> set (tl ?r)" "hd ?r \<noteq> []" by auto
    with r have "[] \<notin> set ?r" by (cases ?r) auto
    with True show ?thesis by simp
  next
    case False
    then have eq: "split_str [nl] (c # cs) = (c # hd ?r) # tl ?r"
      by (intro split_str_char) simp
    show ?thesis
    proof (cases "cs = []")
      case True
      then show ?thesis unfolding eq by simp
    next
      case False
      with Cons.prems have "last cs \<noteq> nl" "\<not> sublist [nl, nl] cs"
        by (auto simp: sublist_Cons_right)
      with Cons.IH False have "[] \<notin> set (tl ?r)" by simp
      then show ?thesis unfolding eq by simp
    qed
  qed
qed

lemma block_lines_nonempty:
  assumes "block \<in> set (split_str [nl, nl] s)" and "py_strip block \<noteq> []"
  shows "[] \<notin> set (split_str [nl] (py_strip block))"
proof -
  let ?t = "py_strip block"
  have "\<not> sublist [nl, nl] block" using assms(1) by (rule split_nn_pieces)
  then have "\<not> sublist [nl, nl] ?t"
    using py_strip_sublist [of block] by (meson sublist_order.order_trans)
  with split_nl_lines [OF assms(2)] py_strip_ends [OF assms(2)]
  have "[] \<notin> set (tl (split_str [nl] ?t))" "hd (split_str [nl] ?t) \<noteq> []" by auto
  then show ?thesis
    using split_str_nonempty [of "[nl]" ?t] by (cases "split_str [nl] ?t") auto
qed

lemma block_lines_eq:
  assumes "block \<in> set (split_str [nl, nl] s)"
  shows "nonempty_lines block =
           (if py_strip block = [] then [] else split_str [nl] (py_strip block))"
proof (cases "py_strip block = []")
  case True
  then show ?thesis by (simp add: nonempty_lines_def)
next
  case False
  with block_lines_nonempty [OF assms] show ?thesis
    by (auto simp: nonempty_lines_def filter_id_conv)
qed

lemma parse_blocks_spec:
  "set blocks \<subseteq> set (split_str [nl, nl] s) \<Longrightarrow>
   parse_blocks blocks segments = segments @ map block_segment (filter qualifies blocks)"
proof (induction blocks arbitrary: segments)
  case Nil
  then show ?case by simp
next
  case (Cons b bs)
  then have b: "b \<in> set (split_str [nl, nl] s)" by simp
  show ?case
  proof (cases "py_strip b = []")
    case True
    then show ?thesis
      using Cons block_lines_eq [OF b] by (simp add: qualifies_def)
  next
    case False
    then have "nonempty_lines b = split_str [nl] (py_strip b)"
      using block_lines_eq [OF b] by simp
    then show ?thesis
      using Cons by (simp add: qualifies_def block_segment_def Let_def)
  qed
qed

subsection \<open>The segments of a file\<close>

text \<open>
  Claim C2. For every content of a timed-text file, the parser splits the trimmed content
  into blocks at the blank-line separator, keeps exactly the blocks that have at least
  three non-empty lines after the block is trimmed, and returns one segment per kept block,
  in the order of the file: the index is the first line, the time range the second, and
  the text the remaining lines joined by one space. Blocks with fewer lines give nothing.
  After trimming, no line of a block is the empty string, so the length test of the source
  counts the non-empty lines (a line of blanks inside a block is a line).
\<close>

theorem parse_srt_file_blocks:
  "parse_srt_file (Some content) =
     map block_segment (filter qualifies (split_str [nl, nl] (py_strip content)))"
  using parse_blocks_spec [of "split_str [nl, nl] (py_strip content)" "py_strip content" "[]"]
  by (simp add: parse_srt_file_def)

lemma example_srt_blocks:
  "map block_segment (filter qualifies (split_str [nl, nl] (py_strip example_srt))) =
     [\<lparr>index = ''1'', timestamps = ''00:00:00,000 --> 00:00:02,000'',
        seg_text = ''Bonjour le monde''\<rparr>,
      \<lparr>index = ''3'', timestamps = ''00:00:02,000 --> 00:00:04,000'', seg_text = ''Fin''\<rparr>]"
  by code_simp

theorem parse_srt_file_blocks_witness:
  "parse_srt_file (Some example_srt) =
     [\<lparr>index = ''1'', timestamps = ''00:00:00,000 --> 00:00:02,000'',
        seg_text = ''Bonjour le monde''\<rparr>,
      \<lparr>index = ''3'', timestamps = ''00:00:02,000 --> 00:00:04,000'', seg_text = ''Fin''\<rparr>]"
  using parse_srt_file_blocks [of example_srt] by (simp only: example_srt_blocks)

section \<open>Properties of the report\<close>

subsection \<open>Resource logs and the metrics of a report\<close>


lemma fmt_examples:
  "fmt_fixed (Suc 0) 50 = ''50.0''" "fmt_fixed 3 (3 / 1000) = ''0.003''"
  by code_simp+

text \<open>
  Claim C1 says that a resource log without its expected column gives the marker
  \<^verbatim>\<open>N/A\<close> for that metric while the other metrics are still computed. The code guards the
  column access by \<^verbatim>\<open>is not None\<close> only: with a processor log that has the columns
  \<^verbatim>\<open>Sample\<close> and \<^verbatim>\<open>CPU\<close>, the access raises \<^verbatim>\<open>KeyError\<close>, the handler of
  \<^verbatim>\<open>generate_report\<close> returns \<^verbatim>\<open>False\<close> and no document is written, although the memory
  average and the energy total of the same directory are computable.
\<close>

theorem missing_column_aborts_report:
  "generate_report_html inputs_missing_column ''emission'' = Inl (KeyError ''CPU_Usage_Percent'')
   \<and> generate_report inputs_missing_column ''emission'' = False
   \<and> percent_avg ''Memory_Usage_Percent'' (read_metrics_csv (monitoring_memory inputs_missing_column))
       = Inr ''50.0%''
   \<and> energy_total (read_metrics_csv (monitoring_power inputs_missing_column)) = Inr ''0.003 kWh''"
  by (simp add: generate_report_def generate_report_html_def inputs_missing_column_def
      bonjour_inputs_def read_metrics_csv_def compute_metrics_def percent_avg_def column_def
      energy_total_def df_len_def series_mean_def fmt_float_def fmt_examples)

text \<open>
  Claim C4 says that a metric carries a formatted number exactly when its log exists, is
  not empty and has the required column, and is the marker \<^verbatim>\<open>N/A\<close> otherwise. With a
  processor log that has its header and no data row, the average of the empty column is
  not-a-number and the metric is printed as \<^verbatim>\<open>nan%\<close>; the energy entry, guarded by
  \<^verbatim>\<open>len(power_df) > 0\<close>, gives the marker for such a log.
\<close>

theorem header_only_log_prints_nan:
  "generate_report_html inputs_header_only ''emission'' =
     Inr (generate_html_template (clock_template inputs_header_only)
            ''Rapport de Transcription - emission'' ''Bonjour le monde'' []
            (report_metadata inputs_header_only ''emission'')
            (map_of [(''audio_duration'', ''N/A''), (''processing_time'', ''N/A''),
                     (''throughput'', ''N/A''), (''cpu_avg'', ''nan%''), (''memory_avg'', ''N/A''),
                     (''energy_total'', ''N/A'')]) [])
   \<and> energy_total (read_metrics_csv (Csv_frame [(''Energy_kWh'', [])])) = Inr ''N/A''"
  by (simp add: generate_report_html_def inputs_header_only_def
      bonjour_inputs_def read_metrics_csv_def compute_metrics_def percent_avg_def column_def
      energy_total_def df_len_def series_mean_def fmt_float_def)

subsection \<open>The rendered document\<close>

text \<open>
  Claim C5. The document is a function of the model and of one reading of the clock, and
  the reading enters it at one place: for every model there are two texts, the same for
  every reading, between which the formatted reading stands. Two renderings of one model
  differ at most in that stamp.
\<close>

theorem template_timestamp_isolated:
  "\<exists>pre post. \<forall>now.
     generate_html_template now title transcription_text segments metadata metrics graph_images =
       pre @ strftime_generated now @ post"
  unfolding generate_html_template_def
  by (rule exI [of _ "tpl_head @ title @ tpl_style @ title @ tpl_subtitle"], rule exI) simp

text \<open>
  Claim C6 says that the segments section is present exactly when there is a segment, and
  that the graphs section is present only when at least one image is embedded. The first
  holds by the gate \<^verbatim>\<open>if segments\<close>. The second gate is \<^verbatim>\<open>if graph_images\<close>, and
  \<^verbatim>\<open>generate_report\<close> stores an entry for every image file that exists, also when its
  encoding failed: with a \<^verbatim>\<open>cpu_usage.png\<close> that cannot be read, the loop skips the only
  entry and the document still has the section, around nothing.
\<close>

theorem unreadable_image_empty_graphs_section:
  "generate_report_html inputs_unreadable_image ''emission'' =
     Inr (generate_html_template (clock_template inputs_unreadable_image)
            ''Rapport de Transcription - emission'' ''Bonjour le monde'' []
            (report_metadata inputs_unreadable_image ''emission'')
            (map_of [(''audio_duration'', ''N/A''), (''processing_time'', ''N/A''),
                     (''throughput'', ''N/A''), (''cpu_avg'', ''N/A''), (''memory_avg'', ''N/A''),
                     (''energy_total'', ''N/A'')]) [(''cpu_usage.png'', None)])
   \<and> build_graphs_html [(''cpu_usage.png'', None)] = []
   \<and> graphs_section [(''cpu_usage.png'', None)] = graphs_section_open @ graphs_section_close
   \<and> graphs_section [(''cpu_usage.png'', None)] \<noteq> []"
  by (simp add: generate_report_html_def inputs_unreadable_image_def
      bonjour_inputs_def read_metrics_csv_def compute_metrics_def percent_avg_def
      energy_total_def image_to_base64_def graphs_section_def build_graphs_html_def
      graphs_section_close_def)

lemma cards_chunks:
  "cards_audio_duration =
     metrics_grid_open @ metric_card_open @ fst (metric_labels ! 0) @ metric_card_mid"
  "cards_processing_time =
     metric_card_close @ metric_card_open @ fst (metric_labels ! 1) @ metric_card_mid"
  "cards_throughput =
     metric_card_close @ metric_card_open @ fst (metric_labels ! 2) @ metric_card_mid"
  "cards_cpu_avg =
     metric_card_close @ metric_card_open @ fst (metric_labels ! 3) @ metric_card_mid"
  "cards_memory_avg =
     metric_card_close @ metric_card_open @ fst (metric_labels ! 4) @ metric_card_mid"
  "cards_energy_total =
     metric_card_close @ metric_card_open @ fst (metric_labels ! 5) @ metric_card_mid"
  "cards_end = metric_card_close @ metrics_grid_close"
  by code_simp+

lemma metrics_cards_grid:
  "metrics_cards metrics =
     metrics_grid_open
     @ concat (map (\<lambda>(label, key). metric_card label (dict_get metrics key ''N/A'')) metric_labels)
     @ metrics_grid_close"
  unfolding metrics_cards_def cards_chunks
  by (simp add: metric_labels_def metric_card_def)

text \<open>
  Claim C7. The document always holds the grid of six metric cards, in the order audio
  duration, processing time, throughput, processor average, memory average, total energy;
  the value of a card is the entry of the metrics dictionary, and the marker \<^verbatim>\<open>N/A\<close> for
  a key that the dictionary does not have.
\<close>

theorem metric_cards_fixed_grid:
  "metrics_cards metrics =
     metrics_grid_open
     @ concat (map (\<lambda>(label, key). metric_card label (dict_get metrics key ''N/A'')) metric_labels)
     @ metrics_grid_close
   \<and> map snd metric_labels =
       [''audio_duration'', ''processing_time'', ''throughput'', ''cpu_avg'', ''memory_avg'',
        ''energy_total'']
   \<and> (\<forall>key. metrics key = None \<longrightarrow> dict_get metrics key ''N/A'' = ''N/A'')
   \<and> (\<exists>pre post.
         generate_html_template now title transcription_text segments metadata metrics graph_images =
           pre @ metrics_cards metrics @ post)"
proof -
  have "\<exists>pre post.
         generate_html_template now title transcription_text segments metadata metrics graph_images =
           pre @ metrics_cards metrics @ post"
    unfolding generate_html_template_def
    by (rule exI [of _ "tpl_head @ title @ tpl_style @ title @ tpl_subtitle
          @ strftime_generated now @ tpl_metrics_section"], rule exI) simp
  then show ?thesis
    using metrics_cards_grid [of metrics] by (simp add: metric_labels_def dict_get_def)
qed

theorem metric_cards_fixed_grid_witness:
  "metrics_cards Map.empty =
     metrics_grid_open
     @ concat (map (\<lambda>(label, key). metric_card label ''N/A'') metric_labels)
     @ metrics_grid_close
   \<and> dict_get (Map.empty :: string \<rightharpoonup> string) ''cpu_avg'' ''N/A'' = ''N/A''"
  using metric_cards_fixed_grid [of Map.empty "clock_template bonjour_inputs" "[]" "[]" "[]" Map.empty "[]"]
  by (simp add: dict_get_def)

lemma report_html_metadata:
  assumes "generate_report_html inp audio_filename = Inr html"
  shows "\<exists>pre post. html = pre @ metadata_grid (report_metadata inp audio_filename) @ post"
proof -
  from assms obtain now title content segs metrics graphs where
    "html = generate_html_template now title content segs (report_metadata inp audio_filename) metrics graphs"
    by (auto simp: generate_report_html_def Let_def split: list.splits option.splits sum.splits if_splits)
  then show ?thesis
    unfolding generate_html_template_def
    by (intro exI [of _ "tpl_head @ title @ tpl_style @ title @ tpl_subtitle @ strftime_generated now
          @ tpl_metrics_section @ metrics_cards metrics @ tpl_metadata_section"] exI) simp
qed

lemma metadata_grid_report:
  "metadata_grid (report_metadata inp audio_filename) =
     grid_filename @ audio_filename @ grid_model @ ''small'' @ grid_language @ ''fr''
     @ grid_date @ strftime_metadata (clock_metadata inp) @ grid_close"
  by (simp add: metadata_grid_def report_metadata_def dict_get_def)

lemma bonjour_html:
  "generate_report_html bonjour_inputs ''emission'' =
     Inr (generate_html_template (clock_template bonjour_inputs)
            ''Rapport de Transcription - emission'' ''Bonjour le monde'' []
            (report_metadata bonjour_inputs ''emission'')
            (map_of [(''audio_duration'', ''N/A''), (''processing_time'', ''N/A''),
                     (''throughput'', ''N/A''), (''cpu_avg'', ''N/A''), (''memory_avg'', ''N/A''),
                     (''energy_total'', ''N/A'')]) [])"
  by (simp add: generate_report_html_def bonjour_inputs_def read_metrics_csv_def
      compute_metrics_def percent_avg_def energy_total_def)

text \<open>
  Claim C9. Whenever a report is written, its metadata grid shows the file name that was
  asked for, the model \<^verbatim>\<open>small\<close>, the language \<^verbatim>\<open>fr\<close> and the clock reading of the
  call, whatever the transcript, the subtitles, the logs and the images are.
\<close>

theorem report_metadata_constants:
  assumes "generate_report_html inp audio_filename = Inr html"
  shows "(\<exists>pre post. html = pre @ metadata_grid (report_metadata inp audio_filename) @ post)
         \<and> metadata_grid (report_metadata inp audio_filename) =
             grid_filename @ audio_filename @ grid_model @ ''small'' @ grid_language @ ''fr''
             @ grid_date @ strftime_metadata (clock_metadata inp) @ grid_close"
  using report_html_metadata [OF assms] metadata_grid_report by simp

theorem report_metadata_constants_witness:
  "\<exists>html. generate_report_html bonjour_inputs ''emission'' = Inr html
     \<and> (\<exists>pre post. html = pre @ metadata_grid (report_metadata bonjour_inputs ''emission'') @ post)
     \<and> metadata_grid (report_metadata bonjour_inputs ''emission'') =
         grid_filename @ ''emission'' @ grid_model @ ''small'' @ grid_language @ ''fr''
         @ grid_date @ ''09/03/2025 14:05:07'' @ grid_close"
proof -
  have stamp: "strftime_metadata (clock_metadata bonjour_inputs) = ''09/03/2025 14:05:07''"
    by code_simp
  note c = report_metadata_constants [OF bonjour_html]
  from c have a: "\<exists>pre post.
      generate_html_template (clock_template bonjour_inputs)
        ''Rapport de Transcription - emission'' ''Bonjour le monde'' []
        (report_metadata bonjour_inputs ''emission'')
        (map_of [(''audio_duration'', ''N/A''), (''processing_time'', ''N/A''),
                 (''throughput'', ''N/A''), (''cpu_avg'', ''N/A''), (''memory_avg'', ''N/A''),
                 (''energy_total'', ''N/A'')]) [] =
      pre @ metadata_grid (report_metadata bonjour_inputs ''emission'') @ post" ..
  from c have b: "metadata_grid (report_metadata bonjour_inputs ''emission'') =
      grid_filename @ ''emission'' @ grid_model @ ''small'' @ grid_language @ ''fr''
      @ grid_date @ ''09/03/2025 14:05:07'' @ grid_close"
    unfolding stamp ..
  from bonjour_html a b show ?thesis by blast
qed

section \<open>Properties of the QoS reporter\<close>

text \<open>
  Claim C8. A chart of the processor or of the memory log whose file cannot be read, or
  whose frame has no data row, is not drawn: the method returns \<^verbatim>\<open>False\<close> and writes no
  image.
\<close>

theorem empty_series_no_chart:
  assumes "csv = Csv_missing \<or> csv = Csv_unreadable \<or> (\<exists>df. csv = Csv_frame df \<and> df_empty df)"
  shows "plot_cpu_usage csv savefig_ok = (False, None)
         \<and> plot_memory_usage csv savefig_ok = (False, None)"
  using assms
  by (auto simp: plot_cpu_usage_def render_cpu_chart_def plot_memory_usage_def
      render_memory_chart_def)

theorem empty_series_no_chart_witness:
  "df_empty [(''CPU_Usage_Percent'', [])]
   \<and> plot_cpu_usage (Csv_frame [(''CPU_Usage_Percent'', [])]) True = (False, None)
   \<and> plot_memory_usage (Csv_frame [(''CPU_Usage_Percent'', [])]) True = (False, None)
   \<and> plot_cpu_usage Csv_unreadable True = (False, None)"
  using empty_series_no_chart [of "Csv_frame [(''CPU_Usage_Percent'', [])]" True]
    empty_series_no_chart [of Csv_unreadable True]
  by (simp add: df_empty_def df_len_def)












end
